theory Spec2Isabelle
  imports Main
begin

section \<open>Resources: the save orchestrator, the resolver chain, the in-memory store\<close>

text \<open>
  A shallow embedding of \<^verbatim>\<open>packages/core/src/common/resource.ts\<close>.

  Conventions.
  \<^item> A JavaScript string is a \<open>string\<close>; one \<open>char\<close> stands for one UTF-16 code unit,
    so \<open>length\<close> is the source's \<^verbatim>\<open>.length\<close>.
  \<^item> A \<^verbatim>\<open>URI\<close> is represented by the text that \<^verbatim>\<open>uri.toString()\<close> gives: the
    source uses a URI only through that text.
  \<^item> An optional member (\<^verbatim>\<open>changes?\<close>, \<^verbatim>\<open>saveContents?\<close>, \<^verbatim>\<open>token?\<close>) is an
    \<open>option\<close>; \<open>None\<close> is \<^verbatim>\<open>undefined\<close>.
  \<^item> An \<^verbatim>\<open>async\<close> function is run to completion, one after the other: it takes the
    state of the world and returns its outcome (\<open>Inl\<close> of the value it throws or rejects
    with, \<open>Inr\<close> of the value it returns) together with the new state.
\<close>

subsection \<open>Data\<close>

type_synonym URI = string

text \<open>
  \<^verbatim>\<open>ResourceVersion\<close> is an empty interface: a version is an opaque token, the type
  parameter \<open>'v\<close>.
\<close>

record 'v ResourceSaveOptions =
  encoding :: "string option"
  overwriteEncoding :: "string option"
  options_version :: "'v option"

text \<open>
  \<^verbatim>\<open>TextDocumentContentChangeEvent\<close> is declared outside this file; a change is a value
  of the type parameter \<open>'c\<close>.
\<close>

record ('c, 'v) SaveContext =
  content :: string
  changes :: "'c list option"
  options :: "'v ResourceSaveOptions option"

subsection \<open>The change-size heuristic\<close>

text \<open>
  \<^verbatim>\<open>JSON.stringify\<close> is the parameter \<open>stringify\<close>. The loop of
  \<^verbatim>\<open>shouldSaveContent\<close> carries \<^verbatim>\<open>contentChangesLength\<close> as its accumulator and
  leaves early as soon as the accumulator exceeds \<^verbatim>\<open>contentLength\<close>.
\<close>

fun shouldSaveContent_loop :: "('c \<Rightarrow> string) \<Rightarrow> nat \<Rightarrow> nat \<Rightarrow> 'c list \<Rightarrow> bool" where
  "shouldSaveContent_loop stringify contentLength contentChangesLength [] =
     (contentChangesLength > contentLength)"
| "shouldSaveContent_loop stringify contentLength contentChangesLength (change # rest) =
     (if contentChangesLength + length (stringify change) > contentLength then True
      else shouldSaveContent_loop stringify contentLength
             (contentChangesLength + length (stringify change)) rest)"

definition shouldSaveContent :: "('c \<Rightarrow> string) \<Rightarrow> ('c, 'v) SaveContext \<Rightarrow> bool" where
  "shouldSaveContent stringify context =
     (case changes context of
        None \<Rightarrow> True
      | Some chs \<Rightarrow> shouldSaveContent_loop stringify (length (content context)) 0 chs)"

text \<open>The sum of the serialised lengths of a list of changes.\<close>

definition serialized_length :: "('c \<Rightarrow> string) \<Rightarrow> 'c list \<Rightarrow> nat" where
  "serialized_length stringify chs = sum_list (map (\<lambda>c. length (stringify c)) chs)"

text \<open>
  The text that \<^verbatim>\<open>JSON.stringify\<close> gives for the change \<^verbatim>\<open>{ text: t }\<close> when
  \<open>t\<close> needs no escaping; used for concrete inputs only.
\<close>

definition text_change_json :: "string \<Rightarrow> string" where
  "text_change_json t =
     ''{'' @ [CHR 0x22] @ ''text'' @ [CHR 0x22] @ '':'' @ [CHR 0x22] @ t @ [CHR 0x22] @ ''}''"

subsection \<open>Errors\<close>

text \<open>
  Modelled from the spec: \<^verbatim>\<open>ApplicationError.declare\<close> is imported from
  \<^verbatim>\<open>./application-error\<close>, which is not part of the source at hand. The spec says
  that it declares an error kind identified by a stable numeric code and carrying a
  payload, and gives a test whether an arbitrary error value is an instance of the kind;
  this file declares \<^verbatim>\<open>NotFound\<close> with code -40000 and \<^verbatim>\<open>OutOfSync\<close> with code
  -40001, each carrying the URI. A thrown value is either such an application error or a
  plain \<^verbatim>\<open>Error\<close> with its message.
\<close>

datatype js_error =
    ApplicationError int URI
  | Error string

definition NotFound :: "URI \<Rightarrow> js_error" where
  "NotFound u = ApplicationError (- 40000) u"

definition OutOfSync :: "URI \<Rightarrow> js_error" where
  "OutOfSync u = ApplicationError (- 40001) u"

definition NotFound_is :: "js_error \<Rightarrow> bool" where
  "NotFound_is e = (case e of ApplicationError code u \<Rightarrow> code = - 40000 | Error msg \<Rightarrow> False)"

definition OutOfSync_is :: "js_error \<Rightarrow> bool" where
  "OutOfSync_is e = (case e of ApplicationError code u \<Rightarrow> code = - 40001 | Error msg \<Rightarrow> False)"

text \<open>The template literals of the source put the URI between single quotes.\<close>

definition quoted :: "string \<Rightarrow> string" where
  "quoted s = [CHR 0x27] @ s @ [CHR 0x27]"

subsection \<open>Tasks and the record of calls\<close>

text \<open>
  A task is an operation on a state \<open>'s\<close> that either throws or returns. The
  orchestrating functions of the source run on a world: the state their collaborators
  act on, and the list of the calls made so far, oldest first. The list is what a
  call-counting test double would record; the source's functions append to it at each
  call of a collaborator, and nothing else reads it.
\<close>

type_synonym ('s, 'a) task = "'s \<Rightarrow> (js_error + 'a) \<times> 's"

record ('s, 'e) world =
  store :: 's
  calls :: "'e list"

definition invoke :: "'e \<Rightarrow> ('s, 'a) task \<Rightarrow> (('s, 'e) world, 'a) task" where
  "invoke ev t w =
     (case t (store w) of (res, s') \<Rightarrow> (res, \<lparr>store = s', calls = calls w @ [ev]\<rparr>))"

subsection \<open>The resource contract\<close>

record ResourceReadOptions =
  read_encoding :: "string option"

text \<open>
  The members of \<^verbatim>\<open>Resource\<close> that the functions of this file use or that the
  properties speak of. \<^verbatim>\<open>version\<close>, \<^verbatim>\<open>saveContents\<close> and
  \<^verbatim>\<open>saveContentChanges\<close> are optional members.
\<close>

record ('s, 'c, 'v) Resource =
  uri :: URI
  version :: "('s \<Rightarrow> 'v option) option"
  readContents :: "ResourceReadOptions option \<Rightarrow> ('s, string) task"
  saveContents :: "(string \<Rightarrow> 'v ResourceSaveOptions option \<Rightarrow> ('s, unit) task) option"
  saveContentChanges ::
    "('c list \<Rightarrow> 'v ResourceSaveOptions option \<Rightarrow> ('s, unit) task) option"

text \<open>
  A cancellation token; \<^verbatim>\<open>isCancellationRequested\<close> is read from the state at the
  moment of the check.
\<close>

record 's CancellationToken =
  isCancellationRequested :: "'s \<Rightarrow> bool"

subsection \<open>The save orchestrator\<close>

datatype ('c, 'v) save_call =
    SaveContents_call string "'v ResourceSaveOptions option"
  | SaveContentChanges_call "'c list" "'v ResourceSaveOptions option"
  | Console_error string js_error

definition console_error ::
  "string \<Rightarrow> js_error \<Rightarrow> ('s, ('c, 'v) save_call) world \<Rightarrow> ('s, ('c, 'v) save_call) world" where
  "console_error msg e w = w\<lparr>calls := calls w @ [Console_error msg e]\<rparr>"

text \<open>
  \<^verbatim>\<open>trySaveContentChanges\<close> catches everything that the incremental save throws, so
  it always returns a boolean.
\<close>

definition trySaveContentChanges ::
  "('c \<Rightarrow> string) \<Rightarrow> ('s, 'c, 'v) Resource \<Rightarrow> ('c, 'v) SaveContext
     \<Rightarrow> ('s, ('c, 'v) save_call) world \<Rightarrow> bool \<times> ('s, ('c, 'v) save_call) world" where
  "trySaveContentChanges stringify resource context w =
     (if changes context = None \<or> saveContentChanges resource = None
         \<or> shouldSaveContent stringify context
      then (False, w)
      else
        (case invoke (SaveContentChanges_call (the (changes context)) (options context))
                ((the (saveContentChanges resource)) (the (changes context)) (options context)) w of
           (Inr u, w') \<Rightarrow> (True, w')
         | (Inl e, w') \<Rightarrow>
             (False,
              if \<not> NotFound_is e \<and> \<not> OutOfSync_is e
              then console_error
                     (''Failed to apply incremental changes to '' @ quoted (uri resource) @ '':'') e w'
              else w')))"

definition save ::
  "('c \<Rightarrow> string) \<Rightarrow> ('s, 'c, 'v) Resource \<Rightarrow> ('c, 'v) SaveContext
     \<Rightarrow> 's CancellationToken option \<Rightarrow> (('s, ('c, 'v) save_call) world, unit) task" where
  "save stringify resource context token w =
     (case saveContents resource of
        None \<Rightarrow> (Inr (), w)
      | Some resource_saveContents \<Rightarrow>
          (case trySaveContentChanges stringify resource context w of
             (True, w1) \<Rightarrow> (Inr (), w1)
           | (False, w1) \<Rightarrow>
               if (case token of None \<Rightarrow> False
                   | Some t \<Rightarrow> isCancellationRequested t (store w1))
               then (Inr (), w1)
               else invoke (SaveContents_call (content context) (options context))
                      (resource_saveContents (content context) (options context)) w1))"

subsection \<open>The resolver chain\<close>

text \<open>
  A \<^verbatim>\<open>ResourceResolver\<close> is its \<^verbatim>\<open>resolve\<close> method; the list of resolvers is what
  \<^verbatim>\<open>resolversProvider.getContributions()\<close> returns. The record of calls holds, for
  each call of a resolver, its position in that list and the URI it was given.
\<close>

type_synonym ('s, 'r) ResourceResolver = "URI \<Rightarrow> ('s, 'r) task"

datatype resolve_call = Resolve_call nat URI

fun get_from ::
  "nat \<Rightarrow> ('s, 'r) ResourceResolver list \<Rightarrow> URI \<Rightarrow> (('s, resolve_call) world, 'r) task" where
  "get_from i [] u w =
     (Inl (Error (''A resource provider for '' @ quoted u @ '' is not registered.'')), w)"
| "get_from i (resolver # rest) u w =
     (case invoke (Resolve_call i u) (resolver u) w of
        (Inr resource, w') \<Rightarrow> (Inr resource, w')
      | (Inl err, w') \<Rightarrow> get_from (Suc i) rest u w')"

definition get ::
  "('s, 'r) ResourceResolver list \<Rightarrow> URI \<Rightarrow> (('s, resolve_call) world, 'r) task" where
  "get resolvers u w = get_from 0 resolvers u w"

subsection \<open>The in-memory resource and its registry\<close>

text \<open>
  Objects have identity: a \<^verbatim>\<open>MutableResource\<close> lives in a heap, the list of all
  objects created so far, and a reference to it is its position in that list.
  \<^verbatim>\<open>new\<close> appends, so a new reference differs from every earlier one, and two
  references are the same object exactly when they are equal.

  The only disposal callback the source builds is the closure
  \<^verbatim>\<open>() => this.resources.delete(resourceUri)\<close> of \<^verbatim>\<open>add\<close>; it is represented by
  the variable it captures. \<^verbatim>\<open>uri\<close> and \<^verbatim>\<open>dispose\<close> are read-only members. The
  emitter is outside this file: \<open>fired\<close> counts the notifications given to it.
\<close>

type_synonym ref = nat

datatype disposer = Delete_entry string

record MutableResource =
  resource_uri :: URI
  contents :: string
  dispose :: disposer
  fired :: nat

text \<open>
  The state of one \<^verbatim>\<open>InMemoryResources\<close> instance together with the heap:
  \<open>resources\<close> is its private map from the text of a URI to a resource.
\<close>

record memory =
  heap :: "MutableResource list"
  resources :: "string \<rightharpoonup> ref"

definition MutableResource_new ::
  "URI \<Rightarrow> string \<Rightarrow> disposer \<Rightarrow> memory \<Rightarrow> ref \<times> memory" where
  "MutableResource_new u c d m =
     (length (heap m),
      m\<lparr>heap := heap m @ [\<lparr>resource_uri = u, contents = c, dispose = d, fired = 0\<rparr>]\<rparr>)"

definition MutableResource_readContents :: "ref \<Rightarrow> (memory, string) task" where
  "MutableResource_readContents r m = (Inr (contents (heap m ! r)), m)"

definition fireDidChangeContents :: "ref \<Rightarrow> memory \<Rightarrow> memory" where
  "fireDidChangeContents r m =
     m\<lparr>heap := (heap m)[r := (heap m ! r)\<lparr>fired := Suc (fired (heap m ! r))\<rparr>]\<rparr>"

definition MutableResource_saveContents :: "ref \<Rightarrow> string \<Rightarrow> (memory, unit) task" where
  "MutableResource_saveContents r c m =
     (Inr (), fireDidChangeContents r (m\<lparr>heap := (heap m)[r := (heap m ! r)\<lparr>contents := c\<rparr>]\<rparr>))"

definition MutableResource_dispose :: "ref \<Rightarrow> memory \<Rightarrow> memory" where
  "MutableResource_dispose r m =
     (case dispose (heap m ! r) of
        Delete_entry resourceUri \<Rightarrow> m\<lparr>resources := (resources m)(resourceUri := None)\<rparr>)"

definition add :: "URI \<Rightarrow> string \<Rightarrow> (memory, ref) task" where
  "add u c m =
     (if resources m u \<noteq> None
      then (Inl (Error (''Cannot add already existing in-memory resource '' @ quoted u)), m)
      else
        (case MutableResource_new u c (Delete_entry u) m of
           (resource, m') \<Rightarrow> (Inr resource, m'\<lparr>resources := (resources m')(u \<mapsto> resource)\<rparr>)))"

definition update :: "URI \<Rightarrow> string \<Rightarrow> (memory, ref) task" where
  "update u c m =
     (case resources m u of
        None \<Rightarrow> (Inl (Error (''Cannot update non-existed in-memory resource '' @ quoted u)), m)
      | Some resource \<Rightarrow> (Inr resource, snd (MutableResource_saveContents resource c m)))"

definition resolve :: "URI \<Rightarrow> (memory, ref) task" where
  "resolve u m =
     (if resources m u = None
      then (Inl (Error (''In memory '' @ quoted u @ '' resource does not exist.'')), m)
      else (Inr (the (resources m u)), m))"

text \<open>
  What a client of the registry can do, and a sequence of such operations run from a
  state. An operation on a reference that no object stands behind cannot be written in
  the source; it leaves the state as it is.
\<close>

datatype operation =
    Add URI string
  | Update URI string
  | Resolve URI
  | ReadContents ref
  | SaveContents ref string
  | Dispose ref

fun step :: "operation \<Rightarrow> memory \<Rightarrow> memory" where
  "step (Add u c) m = snd (add u c m)"
| "step (Update u c) m = snd (update u c m)"
| "step (Resolve u) m = snd (resolve u m)"
| "step (ReadContents r) m =
     (if r < length (heap m) then snd (MutableResource_readContents r m) else m)"
| "step (SaveContents r c) m =
     (if r < length (heap m) then snd (MutableResource_saveContents r c m) else m)"
| "step (Dispose r) m =
     (if r < length (heap m) then MutableResource_dispose r m else m)"

fun run :: "operation list \<Rightarrow> memory \<Rightarrow> memory" where
  "run [] m = m"
| "run (x # xs) m = run xs (step x m)"

text \<open>An operation that saves nothing to the resource \<open>r\<close>.\<close>

fun no_save_to :: "ref \<Rightarrow> operation \<Rightarrow> bool" where
  "no_save_to r (SaveContents r' c) = (r' \<noteq> r)"
| "no_save_to r (Update u c) = False"
| "no_save_to r x = True"


subsection \<open>The resolvers that fail one after the other\<close>

text \<open>
  The state after trying each resolver of a list in order when every one of them fails;
  \<open>None\<close> when one of them succeeds.
\<close>

fun all_fail :: "('s, 'r) ResourceResolver list \<Rightarrow> URI \<Rightarrow> 's \<Rightarrow> 's option" where
  "all_fail [] u s = Some s"
| "all_fail (resolver # rest) u s =
     (case resolver u s of (Inl err, s') \<Rightarrow> all_fail rest u s' | (Inr resource, s') \<Rightarrow> None)"

definition resolve_calls :: "nat \<Rightarrow> URI \<Rightarrow> resolve_call list" where
  "resolve_calls n u = map (\<lambda>i. Resolve_call i u) [0..<n]"

definition is_SaveContents_call :: "('c, 'v) save_call \<Rightarrow> bool" where
  "is_SaveContents_call ev =
     (case ev of SaveContents_call c opts \<Rightarrow> True | SaveContentChanges_call chs opts \<Rightarrow> False
      | Console_error msg e \<Rightarrow> False)"

subsection \<open>Example collaborators\<close>

text \<open>
  A backing store that is one string, resources over it, a token and a context, for the
  concrete runs below. A change is given by its text and serialised by
  \<open>text_change_json\<close>.
\<close>

definition read_store :: "ResourceReadOptions option \<Rightarrow> (string, string) task" where
  "read_store opts s = (Inr s, s)"

definition write_store :: "string \<Rightarrow> nat ResourceSaveOptions option \<Rightarrow> (string, unit) task" where
  "write_store c opts s = (Inr (), c)"

definition append_changes ::
  "string list \<Rightarrow> nat ResourceSaveOptions option \<Rightarrow> (string, unit) task" where
  "append_changes chs opts s = (Inr (), s @ concat chs)"

definition reject_not_found ::
  "URI \<Rightarrow> string list \<Rightarrow> nat ResourceSaveOptions option \<Rightarrow> (string, unit) task" where
  "reject_not_found u chs opts s = (Inl (NotFound u), s)"

definition unread_file :: "(string, string, nat) Resource" where
  "unread_file =
     \<lparr>uri = ''file:///a.txt'', version = None, readContents = read_store,
      saveContents = Some write_store,
      saveContentChanges = Some (reject_not_found ''file:///a.txt'')\<rparr>"

definition read_only_file :: "(string, string, nat) Resource" where
  "read_only_file =
     \<lparr>uri = ''file:///a.txt'', version = None, readContents = read_store,
      saveContents = None,
      saveContentChanges = Some append_changes\<rparr>"

text \<open>
  An incremental save that has already written to the backing store when it rejects.
\<close>

definition write_then_reject_not_found ::
  "URI \<Rightarrow> string list \<Rightarrow> nat ResourceSaveOptions option \<Rightarrow> (string, unit) task" where
  "write_then_reject_not_found u chs opts s = (Inl (NotFound u), ''dirty'')"

definition dirty_file :: "(string, string, nat) Resource" where
  "dirty_file =
     \<lparr>uri = ''file:///a.txt'', version = None, readContents = read_store,
      saveContents = Some write_store,
      saveContentChanges = Some (write_then_reject_not_found ''file:///a.txt'')\<rparr>"

definition always_requested :: "string \<Rightarrow> bool" where
  "always_requested s = True"

definition cancelled :: "string CancellationToken" where
  "cancelled = \<lparr>isCancellationRequested = always_requested\<rparr>"

definition small_edit :: "(string, nat) SaveContext" where
  "small_edit = \<lparr>content = ''hello, wide world'', changes = Some [''x''], options = None\<rparr>"

definition full_rewrite :: "(string, nat) SaveContext" where
  "full_rewrite = \<lparr>content = ''hello, wide world'', changes = None, options = None\<rparr>"

definition old_world :: "(string, (string, nat) save_call) world" where
  "old_world = \<lparr>store = ''hello, world'', calls = []\<rparr>"

definition refusing_resolver :: "(unit, nat) ResourceResolver" where
  "refusing_resolver u s = (Inl (Error ''unsupported scheme''), s)"

definition constant_resolver :: "nat \<Rightarrow> (unit, nat) ResourceResolver" where
  "constant_resolver r u s = (Inr r, s)"

definition empty_memory :: memory where
  "empty_memory = \<lparr>heap = [], resources = Map.empty\<rparr>"

section \<open>Properties\<close>

subsection \<open>The change-size heuristic\<close>

lemma shouldSaveContent_loop_sum:
  "shouldSaveContent_loop stringify n acc chs
     = (acc + serialized_length stringify chs > n)"
  by (induction chs arbitrary: acc) (auto simp: serialized_length_def)

text \<open>
  C1, as the code has it: with changes present, \<^verbatim>\<open>shouldSaveContent\<close> returns true
  exactly when the sum of the serialised lengths of the changes is strictly greater than
  \<^verbatim>\<open>content.length\<close>. So it returns false whenever the sum is less than or equal to
  the content length (equality included), and true whenever the sum is strictly greater,
  also when the running sum exceeds the content length partway through the loop.
\<close>

theorem shouldSaveContent_iff_sum_exceeds:
  "changes ctx = Some chs \<Longrightarrow>
     shouldSaveContent stringify ctx
       = (serialized_length stringify chs > length (content ctx))"
  by (simp add: shouldSaveContent_def shouldSaveContent_loop_sum)

theorem shouldSaveContent_iff_sum_exceeds_witness:
  "changes \<lparr>content = ''abcdefghijk'', changes = Some [''x''], options = None\<rparr> = Some [''x'']
   \<and> shouldSaveContent text_change_json
        \<lparr>content = ''abcdefghijk'', changes = Some [''x''], options = None\<rparr>
   \<and> serialized_length text_change_json [''x''] = 12"
  using shouldSaveContent_iff_sum_exceeds
    [of "\<lparr>content = ''abcdefghijk'', changes = Some [''x''], options = None\<rparr>" "[''x'']"
        text_change_json]
  by (simp add: serialized_length_def text_change_json_def)

text \<open>
  C1 as stated fails at equality: the content \<^verbatim>\<open>"abcdefghijkl"\<close> has length 12, the
  single change \<^verbatim>\<open>{ text: "x" }\<close> serialises to 12 characters, so the sum is greater
  than or equal to the content length, and \<^verbatim>\<open>shouldSaveContent\<close> returns false.
\<close>

theorem shouldSaveContent_equal_length_counterexample:
  "serialized_length text_change_json [''x''] \<ge> length ''abcdefghijkl''
   \<and> shouldSaveContent text_change_json
        \<lparr>content = ''abcdefghijkl'', changes = Some [''x''], options = None\<rparr> = False"
  by (simp add: shouldSaveContent_def serialized_length_def text_change_json_def)

text \<open>
  C9: with \<^verbatim>\<open>changes\<close> present and empty, \<^verbatim>\<open>shouldSaveContent\<close> returns false for
  every content, the empty content included, whereas with \<^verbatim>\<open>changes\<close> absent it
  returns true.
\<close>

theorem shouldSaveContent_empty_changes:
  "shouldSaveContent stringify \<lparr>content = c, changes = Some [], options = opts\<rparr> = False
   \<and> shouldSaveContent stringify \<lparr>content = [], changes = Some [], options = opts\<rparr> = False
   \<and> shouldSaveContent stringify \<lparr>content = c, changes = None, options = opts\<rparr> = True"
  by (simp add: shouldSaveContent_def)

subsection \<open>The save orchestrator\<close>

lemma trySaveContentChanges_keeps_full_calls:
  "trySaveContentChanges stringify resource ctx w = (b, w') \<Longrightarrow>
     filter is_SaveContents_call (calls w') = filter is_SaveContents_call (calls w)"
  by (auto simp: trySaveContentChanges_def invoke_def console_error_def is_SaveContents_call_def
           split: if_splits prod.splits sum.splits)

text \<open>
  C2, as the code has it: for a resource with both \<^verbatim>\<open>saveContents\<close> and
  \<^verbatim>\<open>saveContentChanges\<close> and a context eligible for incremental save, if the
  incremental save raises \<^verbatim>\<open>NotFound\<close> or \<^verbatim>\<open>OutOfSync\<close> and cancellation is not
  requested when the token is checked afterwards (no token, or a token that reports
  false), then \<^verbatim>\<open>save\<close> calls \<^verbatim>\<open>saveContents\<close> exactly once, with
  \<^verbatim>\<open>context.content\<close> and \<^verbatim>\<open>context.options\<close>, on the state that the failed
  incremental save left; the outcome and the final state of \<^verbatim>\<open>save\<close> are those of
  that call, and the only calls made are the incremental save and then the full save.
\<close>

theorem save_falls_back_to_full_save:
  assumes "saveContents resource = Some full"
    and "saveContentChanges resource = Some incremental"
    and "changes ctx = Some chs"
    and "\<not> shouldSaveContent stringify ctx"
    and "incremental chs (options ctx) (store w) = (Inl e, s')"
    and "NotFound_is e \<or> OutOfSync_is e"
    and "\<not> (case token of None \<Rightarrow> False | Some t \<Rightarrow> isCancellationRequested t s')"
  shows "save stringify resource ctx token w =
           (fst (full (content ctx) (options ctx) s'),
            \<lparr>store = snd (full (content ctx) (options ctx) s'),
             calls = calls w @ [SaveContentChanges_call chs (options ctx),
                                SaveContents_call (content ctx) (options ctx)]\<rparr>)"
proof -
  have attempt: "trySaveContentChanges stringify resource ctx w =
      (False, \<lparr>store = s', calls = calls w @ [SaveContentChanges_call chs (options ctx)]\<rparr>)"
    using assms(2-6) by (auto simp: trySaveContentChanges_def invoke_def)
  show ?thesis
    using assms(1,7) by (cases token) (simp_all add: save_def attempt invoke_def split: prod.splits)
qed

theorem save_falls_back_to_full_save_witness:
  "saveContents unread_file = Some write_store
   \<and> saveContentChanges unread_file = Some (reject_not_found ''file:///a.txt'')
   \<and> changes small_edit = Some [''x'']
   \<and> \<not> shouldSaveContent text_change_json small_edit
   \<and> NotFound_is (NotFound ''file:///a.txt'')
   \<and> save text_change_json unread_file small_edit None old_world =
       (Inr (),
        \<lparr>store = ''hello, wide world'',
         calls = [SaveContentChanges_call [''x''] None,
                  SaveContents_call ''hello, wide world'' None]\<rparr>)"
  using save_falls_back_to_full_save
    [where resource = unread_file and full = write_store
       and incremental = "reject_not_found ''file:///a.txt''" and ctx = small_edit
       and chs = "[''x'']" and stringify = text_change_json and w = old_world
       and e = "NotFound ''file:///a.txt''" and s' = "''hello, world''" and token = None]
  by (simp add: unread_file_def small_edit_def old_world_def write_store_def
        reject_not_found_def shouldSaveContent_def text_change_json_def NotFound_is_def
        NotFound_def)

text \<open>
  C2 as stated fails when cancellation is requested: the resource has both capabilities,
  the context is eligible, the incremental save raises \<^verbatim>\<open>NotFound\<close>, and
  \<^verbatim>\<open>save\<close> returns without any call of \<^verbatim>\<open>saveContents\<close>; the store keeps its
  old content.
\<close>

theorem save_no_fallback_when_cancelled_counterexample:
  "saveContents unread_file = Some write_store
   \<and> saveContentChanges unread_file = Some (reject_not_found ''file:///a.txt'')
   \<and> changes small_edit = Some [''x'']
   \<and> \<not> shouldSaveContent text_change_json small_edit
   \<and> reject_not_found ''file:///a.txt'' [''x''] (options small_edit) (store old_world)
       = (Inl (NotFound ''file:///a.txt''), ''hello, world'')
   \<and> NotFound_is (NotFound ''file:///a.txt'')
   \<and> save text_change_json unread_file small_edit (Some cancelled) old_world =
       (Inr (), \<lparr>store = ''hello, world'', calls = [SaveContentChanges_call [''x''] None]\<rparr>)"
  by (simp add: unread_file_def small_edit_def old_world_def write_store_def
        reject_not_found_def shouldSaveContent_def text_change_json_def NotFound_is_def
        NotFound_def save_def trySaveContentChanges_def invoke_def cancelled_def
        always_requested_def)

text \<open>
  C3: for a resource without \<^verbatim>\<open>saveContents\<close>, whatever the context and the token
  and whether or not the resource has \<^verbatim>\<open>saveContentChanges\<close>, \<^verbatim>\<open>save\<close> returns
  normally and leaves the world exactly as it was: the state the resource lives in
  (its content and version) is untouched and no call is recorded.
\<close>

theorem save_without_saveContents_is_noop:
  "saveContents resource = None \<Longrightarrow> save stringify resource ctx token w = (Inr (), w)"
  by (simp add: save_def)

theorem save_without_saveContents_is_noop_witness:
  "saveContents read_only_file = None
   \<and> saveContentChanges read_only_file = Some append_changes
   \<and> changes small_edit = Some [''x'']
   \<and> save text_change_json read_only_file small_edit None old_world = (Inr (), old_world)"
  using save_without_saveContents_is_noop
    [where resource = read_only_file and stringify = text_change_json
       and ctx = small_edit and token = None and w = old_world]
  by (simp add: read_only_file_def small_edit_def)

text \<open>
  C4, as the code has it: for a resource with \<^verbatim>\<open>saveContents\<close>, if the incremental
  attempt did not succeed (\<^verbatim>\<open>trySaveContentChanges\<close> returned false, leaving the
  world \<open>w'\<close>) and the token then reports that cancellation is requested, \<^verbatim>\<open>save\<close>
  raises no error, does not call \<^verbatim>\<open>saveContents\<close>, and writes nothing after the
  check: it returns in the world \<open>w'\<close>. When no incremental save was attempted, \<open>w'\<close>
  is the initial world; when one was attempted, the store of \<open>w'\<close> is the one that the
  resource's own unsuccessful \<^verbatim>\<open>saveContentChanges\<close> left.
\<close>

theorem save_cancelled_before_full_save:
  assumes "saveContents resource = Some full"
    and "trySaveContentChanges stringify resource ctx w = (False, w')"
    and "token = Some t"
    and "isCancellationRequested t (store w')"
  shows "save stringify resource ctx token w = (Inr (), w')
         \<and> filter is_SaveContents_call (calls w') = filter is_SaveContents_call (calls w)
         \<and> (changes ctx = None \<or> saveContentChanges resource = None
              \<or> shouldSaveContent stringify ctx \<longrightarrow> w' = w)
         \<and> (changes ctx = Some chs \<and> saveContentChanges resource = Some incremental
              \<and> \<not> shouldSaveContent stringify ctx \<longrightarrow>
              store w' = snd (incremental chs (options ctx) (store w)))"
proof -
  have "save stringify resource ctx token w = (Inr (), w')"
    using assms by (simp add: save_def)
  moreover have "filter is_SaveContents_call (calls w') = filter is_SaveContents_call (calls w)"
    using assms(2) by (rule trySaveContentChanges_keeps_full_calls)
  moreover have "changes ctx = None \<or> saveContentChanges resource = None
              \<or> shouldSaveContent stringify ctx \<longrightarrow> w' = w"
    using assms(2) by (auto simp: trySaveContentChanges_def)
  moreover have "changes ctx = Some chs \<and> saveContentChanges resource = Some incremental
              \<and> \<not> shouldSaveContent stringify ctx \<longrightarrow>
              store w' = snd (incremental chs (options ctx) (store w))"
    using assms(2)
    by (auto simp: trySaveContentChanges_def invoke_def console_error_def
          split: prod.splits sum.splits if_splits)
  ultimately show ?thesis by simp
qed

theorem save_cancelled_before_full_save_witness:
  "saveContents dirty_file = Some write_store
   \<and> saveContentChanges dirty_file = Some (write_then_reject_not_found ''file:///a.txt'')
   \<and> changes small_edit = Some [''x'']
   \<and> \<not> shouldSaveContent text_change_json small_edit
   \<and> trySaveContentChanges text_change_json dirty_file small_edit old_world =
       (False, \<lparr>store = ''dirty'', calls = [SaveContentChanges_call [''x''] None]\<rparr>)
   \<and> isCancellationRequested cancelled ''dirty''
   \<and> save text_change_json dirty_file small_edit (Some cancelled) old_world =
       (Inr (), \<lparr>store = ''dirty'', calls = [SaveContentChanges_call [''x''] None]\<rparr>)
   \<and> snd (write_then_reject_not_found ''file:///a.txt'' [''x''] (options small_edit)
            (store old_world)) = ''dirty''
   \<and> changes full_rewrite = None
   \<and> trySaveContentChanges text_change_json dirty_file full_rewrite old_world
       = (False, old_world)
   \<and> save text_change_json dirty_file full_rewrite (Some cancelled) old_world
       = (Inr (), old_world)"
  using save_cancelled_before_full_save
    [where resource = dirty_file and full = write_store and stringify = text_change_json
       and ctx = small_edit and w = old_world and token = "Some cancelled" and t = cancelled
       and w' = "\<lparr>store = ''dirty'', calls = [SaveContentChanges_call [''x''] None]\<rparr>"
       and chs = "[''x'']" and incremental = "write_then_reject_not_found ''file:///a.txt''"]
    save_cancelled_before_full_save
    [where resource = dirty_file and full = write_store and stringify = text_change_json
       and ctx = full_rewrite and w = old_world and token = "Some cancelled" and t = cancelled
       and w' = old_world]
  by (simp add: dirty_file_def small_edit_def full_rewrite_def old_world_def
        write_then_reject_not_found_def shouldSaveContent_def text_change_json_def
        NotFound_is_def NotFound_def trySaveContentChanges_def invoke_def cancelled_def
        always_requested_def)

text \<open>
  C4 as stated fails when the unsuccessful incremental save has itself written: the
  resource has \<^verbatim>\<open>saveContents\<close>, its \<^verbatim>\<open>saveContentChanges\<close> overwrites the store
  and then rejects with \<^verbatim>\<open>NotFound\<close>, and the token reports cancellation after that
  attempt. \<^verbatim>\<open>save\<close> returns normally, yet the store, \<^verbatim>\<open>"hello, world"\<close> before the
  call, is \<^verbatim>\<open>"dirty"\<close> after it: content was mutated during \<^verbatim>\<open>save\<close>.
\<close>

theorem save_cancelled_after_dirty_attempt_counterexample:
  "saveContents dirty_file = Some write_store
   \<and> trySaveContentChanges text_change_json dirty_file small_edit old_world =
       (False, \<lparr>store = ''dirty'', calls = [SaveContentChanges_call [''x''] None]\<rparr>)
   \<and> isCancellationRequested cancelled ''dirty''
   \<and> store old_world = ''hello, world''
   \<and> fst (save text_change_json dirty_file small_edit (Some cancelled) old_world) = Inr ()
   \<and> store (snd (save text_change_json dirty_file small_edit (Some cancelled) old_world))
       = ''dirty''
   \<and> store (snd (save text_change_json dirty_file small_edit (Some cancelled) old_world))
       \<noteq> store old_world"
  by (simp add: dirty_file_def small_edit_def old_world_def
        write_then_reject_not_found_def shouldSaveContent_def text_change_json_def
        NotFound_is_def NotFound_def save_def trySaveContentChanges_def invoke_def
        cancelled_def always_requested_def)

subsection \<open>The resolver chain\<close>

lemma resolve_calls_from_Cons:
  "map (\<lambda>j. Resolve_call j u) [i..<i + Suc n]
     = Resolve_call i u # map (\<lambda>j. Resolve_call j u) [Suc i..<Suc i + n]"
  by (simp add: upt_conv_Cons del: upt_Suc)

lemma get_from_all_fail:
  "all_fail rs u (store w) = Some s' \<Longrightarrow>
     get_from i rs u w =
       (Inl (Error (''A resource provider for '' @ quoted u @ '' is not registered.'')),
        \<lparr>store = s', calls = calls w @ map (\<lambda>j. Resolve_call j u) [i..<i + length rs]\<rparr>)"
proof (induction rs arbitrary: i w)
  case Nil
  then show ?case by simp
next
  case (Cons r rs)
  from Cons.prems obtain e s1 where r: "r u (store w) = (Inl e, s1)"
    and rest: "all_fail rs u s1 = Some s'"
    by (auto split: prod.splits sum.splits)
  let ?w1 = "\<lparr>store = s1, calls = calls w @ [Resolve_call i u]\<rparr>"
  have "get_from i (r # rs) u w = get_from (Suc i) rs u ?w1"
    using r by (simp add: invoke_def)
  also have "\<dots> =
       (Inl (Error (''A resource provider for '' @ quoted u @ '' is not registered.'')),
        \<lparr>store = s',
         calls = calls ?w1 @ map (\<lambda>j. Resolve_call j u) [Suc i..<Suc i + length rs]\<rparr>)"
    using rest by (intro Cons.IH) simp
  finally show ?case
    using resolve_calls_from_Cons [of u i "length rs"] by simp
qed

lemma get_from_first_success:
  "all_fail pre u (store w) = Some s' \<Longrightarrow> k u s' = (Inr res, s'') \<Longrightarrow>
     get_from i (pre @ k # post) u w =
       (Inr res,
        \<lparr>store = s'',
         calls = calls w @ map (\<lambda>j. Resolve_call j u) [i..<i + Suc (length pre)]\<rparr>)"
proof (induction pre arbitrary: i w)
  case Nil
  then show ?case by (simp add: invoke_def)
next
  case (Cons r rs)
  from Cons.prems(1) obtain e s1 where r: "r u (store w) = (Inl e, s1)"
    and rest: "all_fail rs u s1 = Some s'"
    by (auto split: prod.splits sum.splits)
  let ?w1 = "\<lparr>store = s1, calls = calls w @ [Resolve_call i u]\<rparr>"
  have "get_from i ((r # rs) @ k # post) u w = get_from (Suc i) (rs @ k # post) u ?w1"
    using r by (simp add: invoke_def)
  also have "\<dots> =
       (Inr res,
        \<lparr>store = s'',
         calls = calls ?w1 @ map (\<lambda>j. Resolve_call j u) [Suc i..<Suc i + Suc (length rs)]\<rparr>)"
    using rest Cons.prems(2) by (intro Cons.IH) simp_all
  finally show ?case
    using resolve_calls_from_Cons [of u i "Suc (length rs)"] by simp
qed

text \<open>
  C5: \<^verbatim>\<open>DefaultResourceProvider.get\<close> over the resolvers in registration order.
  \<^item> If every resolver of the prefix \<open>pre\<close> fails and the next resolver \<open>k\<close> succeeds
    with the resource \<open>res\<close>, \<^verbatim>\<open>get\<close> returns \<open>res\<close>; the failures before are
    swallowed, and the calls made are those of the resolvers at the positions
    \<open>0, \<dots>, length pre\<close>, so no resolver after \<open>k\<close> is invoked.
  \<^item> If every resolver of the list fails, \<^verbatim>\<open>get\<close> fails, after one call of each,
    with the plain error \<^verbatim>\<open>A resource provider for '<uri>' is not registered.\<close>, which
    is neither \<^verbatim>\<open>NotFound\<close> nor \<^verbatim>\<open>OutOfSync\<close>.
  \<^item> With no resolver at all it fails with that error and calls nothing.
\<close>

theorem get_returns_first_success:
  "(all_fail pre u (store w) = Some s' \<longrightarrow> k u s' = (Inr res, s'') \<longrightarrow>
      get (pre @ k # post) u w =
        (Inr res, \<lparr>store = s'', calls = calls w @ resolve_calls (Suc (length pre)) u\<rparr>))
   \<and> (all_fail rs u (store w) = Some s3 \<longrightarrow>
      get rs u w =
        (Inl (Error (''A resource provider for '' @ quoted u @ '' is not registered.'')),
         \<lparr>store = s3, calls = calls w @ resolve_calls (length rs) u\<rparr>)
      \<and> \<not> NotFound_is (Error (''A resource provider for '' @ quoted u @ '' is not registered.''))
      \<and> \<not> OutOfSync_is (Error (''A resource provider for '' @ quoted u @ '' is not registered.'')))
   \<and> get [] u w =
        (Inl (Error (''A resource provider for '' @ quoted u @ '' is not registered.'')), w)"
  using get_from_first_success [of pre u w s' k res s'' 0 post] get_from_all_fail [of rs u w s3 0]
  by (simp add: get_def resolve_calls_def NotFound_is_def OutOfSync_is_def)

theorem get_returns_first_success_witness:
  "all_fail [refusing_resolver] ''mem:/a'' () = Some ()
   \<and> constant_resolver 7 ''mem:/a'' () = (Inr 7, ())
   \<and> get [refusing_resolver, constant_resolver 7, constant_resolver 8] ''mem:/a''
         \<lparr>store = (), calls = []\<rparr> =
       (Inr 7, \<lparr>store = (), calls = [Resolve_call 0 ''mem:/a'', Resolve_call 1 ''mem:/a'']\<rparr>)
   \<and> all_fail [refusing_resolver, refusing_resolver] ''mem:/a'' () = Some ()
   \<and> get [refusing_resolver, refusing_resolver] ''mem:/a'' \<lparr>store = (), calls = []\<rparr> =
       (Inl (Error (''A resource provider for '' @ quoted ''mem:/a'' @ '' is not registered.'')),
        \<lparr>store = (), calls = [Resolve_call 0 ''mem:/a'', Resolve_call 1 ''mem:/a'']\<rparr>)"
  using get_returns_first_success
    [where pre = "[refusing_resolver]" and k = "constant_resolver 7"
       and post = "[constant_resolver 8]" and u = "''mem:/a''"
       and w = "\<lparr>store = (), calls = []\<rparr>" and s' = "()" and s'' = "()" and res = 7
       and rs = "[refusing_resolver, refusing_resolver]" and ?s3.0 = "()"]
  by (auto simp: refusing_resolver_def constant_resolver_def resolve_calls_def)

subsection \<open>The in-memory registry\<close>

text \<open>
  C6: when no entry exists under the URI, \<^verbatim>\<open>add\<close> succeeds and returns a new
  object (the reference \<open>length (heap m)\<close>, which no earlier object has); \<^verbatim>\<open>resolve\<close>
  of the same URI in the resulting state returns that same reference, and
  \<^verbatim>\<open>readContents\<close> of it yields the content given to \<^verbatim>\<open>add\<close>.
\<close>

theorem add_then_resolve:
  assumes "resources m u = None"
  shows "fst (add u c m) = Inr (length (heap m))
       \<and> resolve u (snd (add u c m)) = (Inr (length (heap m)), snd (add u c m))
       \<and> MutableResource_readContents (length (heap m)) (snd (add u c m))
           = (Inr c, snd (add u c m))"
  using assms
  by (simp add: add_def MutableResource_new_def resolve_def MutableResource_readContents_def)

theorem add_then_resolve_witness:
  "resources empty_memory ''mem:/a'' = None
   \<and> fst (add ''mem:/a'' ''hello'' empty_memory) = Inr 0
   \<and> fst (resolve ''mem:/a'' (snd (add ''mem:/a'' ''hello'' empty_memory))) = Inr 0
   \<and> fst (MutableResource_readContents 0 (snd (add ''mem:/a'' ''hello'' empty_memory)))
       = Inr ''hello''"
  using add_then_resolve [where m = empty_memory and u = "''mem:/a''" and c = "''hello''"]
  by (simp add: empty_memory_def)

text \<open>
  C7: when an entry exists under the URI, \<^verbatim>\<open>add\<close> fails with the error
  \<^verbatim>\<open>Cannot add already existing in-memory resource '<uri>'\<close> and the state is the
  one before the call: the registry, the heap, and with it the registered resource, its
  identity and content, are unchanged.
\<close>

theorem add_existing_fails:
  "resources m u = Some r \<Longrightarrow>
     add u c m = (Inl (Error (''Cannot add already existing in-memory resource '' @ quoted u)), m)"
  by (simp add: add_def)

theorem add_existing_fails_witness:
  "resources (snd (add ''mem:/a'' ''hello'' empty_memory)) ''mem:/a'' = Some 0
   \<and> add ''mem:/a'' ''bye'' (snd (add ''mem:/a'' ''hello'' empty_memory)) =
       (Inl (Error (''Cannot add already existing in-memory resource '' @ quoted ''mem:/a'')),
        snd (add ''mem:/a'' ''hello'' empty_memory))"
  using add_existing_fails
    [where m = "snd (add ''mem:/a'' ''hello'' empty_memory)" and u = "''mem:/a''" and r = 0
       and c = "''bye''"]
  by (simp add: add_def MutableResource_new_def empty_memory_def)

lemma saveContents_length:
  "length (heap (snd (MutableResource_saveContents r' c m))) = length (heap m)"
  by (simp add: MutableResource_saveContents_def fireDidChangeContents_def)



lemma saveContents_other:
  "r' \<noteq> r \<Longrightarrow>
     contents (heap (snd (MutableResource_saveContents r' c m)) ! r) = contents (heap m ! r)"
  by (simp add: MutableResource_saveContents_def fireDidChangeContents_def)

lemma saveContents_same:
  "r < length (heap m) \<Longrightarrow>
     contents (heap (snd (MutableResource_saveContents r c m)) ! r) = c"
  by (simp add: MutableResource_saveContents_def fireDidChangeContents_def)

lemma dispose_heap: "heap (MutableResource_dispose r m) = heap m"
  by (simp add: MutableResource_dispose_def split: disposer.splits)

lemma step_heap_length: "length (heap m) \<le> length (heap (step x m))"
  by (cases x)
     (auto simp: add_def update_def resolve_def MutableResource_new_def
        MutableResource_readContents_def saveContents_length dispose_heap
        split: option.splits)







lemma step_contents:
  "no_save_to r x \<Longrightarrow> r < length (heap m) \<Longrightarrow>
     contents (heap (step x m) ! r) = contents (heap m ! r)"
  by (cases x)
     (auto simp: add_def resolve_def MutableResource_new_def
        MutableResource_readContents_def saveContents_other dispose_heap nth_append
        split: option.splits)

lemma run_contents:
  "list_all (no_save_to r) xs \<Longrightarrow> r < length (heap m) \<Longrightarrow>
     contents (heap (run xs m) ! r) = contents (heap m ! r)"
proof (induction xs arbitrary: m)
  case Nil
  then show ?case by simp
next
  case (Cons x xs)
  have "r < length (heap (step x m))"
    using Cons.prems step_heap_length [of m x] by simp
  with Cons show ?case by (simp add: step_contents)
qed

text \<open>
  C10: \<^verbatim>\<open>MutableResource.readContents\<close> never fails. For a resource \<open>r\<close> of the heap:
  \<^item> after any sequence \<open>ys\<close> of operations it returns normally, with the value of the
    \<^verbatim>\<open>contents\<close> member, and leaves the state as it is;
  \<^item> after \<^verbatim>\<open>saveContents(c)\<close> on \<open>r\<close> followed by any operations \<open>xs\<close> that
    save nothing to \<open>r\<close> (other resources may be saved, anything may be added, resolved
    or disposed, \<open>r\<close> included) it returns \<open>c\<close>;
  \<^item> in particular it returns \<open>c\<close> when \<open>r\<close> is disposed right after the save.
\<close>

theorem readContents_never_fails:
  assumes "r < length (heap m)"
    and "list_all (no_save_to r) xs"
  shows "MutableResource_readContents r (run ys m)
           = (Inr (contents (heap (run ys m) ! r)), run ys m)
       \<and> MutableResource_readContents r (run (SaveContents r c # xs) m)
           = (Inr c, run (SaveContents r c # xs) m)
       \<and> MutableResource_readContents r (run (SaveContents r c # Dispose r # xs) m)
           = (Inr c, run (SaveContents r c # Dispose r # xs) m)"
proof -
  let ?m1 = "step (SaveContents r c) m"
  have len: "r < length (heap ?m1)" and c: "contents (heap ?m1 ! r) = c"
    using assms(1) by (simp_all add: saveContents_length saveContents_same)
  have "list_all (no_save_to r) (Dispose r # xs)" using assms(2) by simp
  from run_contents [OF assms(2) len] run_contents [OF this len] c
  show ?thesis by (simp add: MutableResource_readContents_def)
qed

theorem readContents_never_fails_witness:
  "0 < length (heap (snd (add ''mem:/a'' ''hello'' empty_memory)))
   \<and> list_all (no_save_to 0) [Add ''mem:/b'' ''x'', Dispose 0]
   \<and> fst (MutableResource_readContents 0
         (run [Dispose 0] (snd (add ''mem:/a'' ''hello'' empty_memory))))
       = Inr ''hello''
   \<and> fst (MutableResource_readContents 0
         (run [SaveContents 0 ''bye'', Add ''mem:/b'' ''x'', Dispose 0]
            (snd (add ''mem:/a'' ''hello'' empty_memory))))
       = Inr ''bye''"
  using readContents_never_fails
    [where r = 0 and m = "snd (add ''mem:/a'' ''hello'' empty_memory)" and c = "''bye''"
       and xs = "[Add ''mem:/b'' ''x'', Dispose 0]" and ys = "[Dispose 0]"]
  by (simp add: add_def MutableResource_new_def empty_memory_def MutableResource_dispose_def)

end
